theory Spec2Isabelle
  imports Main
begin

section \<open>06-objects-tasks.js: the program\<close>

subsection \<open>Exceptions and completions\<close>

text \<open>
  The exceptions the builder raises itself are \<^verbatim>\<open>new Error(message)\<close>; \<^verbatim>\<open>TypeError\<close>
  and \<^verbatim>\<open>SyntaxError\<close> are raised by the language and its library (their messages
  depend on the engine and are left out).
  A call either returns a value or throws; the state of the receiver after the call is
  given next to the completion, since a method that throws may already have written
  to \<^verbatim>\<open>this\<close>.
\<close>

datatype exn = Error string | TypeError | SyntaxError

datatype 'a completion = Return 'a | Throw exn

subsection \<open>function Rectangle\<close>

text \<open>
  Numbers are kept abstract: \<open>'n\<close> is any type with a multiplication, which stands for
  the \<^verbatim>\<open>*\<close> of the language. The constructor assigns the two fields of the new object
  and, on every call, assigns \<^verbatim>\<open>Rectangle.prototype.getArea\<close>; so the state of that
  prototype object is passed along. \<^verbatim>\<open>r.getArea()\<close> finds the method on the prototype
  (the object itself has only \<^verbatim>\<open>width\<close> and \<^verbatim>\<open>height\<close>) and calls it with the
  object as \<^verbatim>\<open>this\<close>; calling what is not there is a \<^verbatim>\<open>TypeError\<close>.
\<close>

record 'n Rectangle =
  width :: 'n
  height :: 'n

record 'n Rectangle_prototype =
  getArea :: "('n Rectangle \<Rightarrow> 'n) option"

definition new_Rectangle ::
  "'n::times \<Rightarrow> 'n \<Rightarrow> 'n Rectangle_prototype \<Rightarrow> 'n Rectangle \<times> 'n Rectangle_prototype" where
  "new_Rectangle x y proto =
     (\<lparr>width = x, height = y\<rparr>,
      proto\<lparr>getArea := Some (\<lambda>this. width this * height this)\<rparr>)"

definition call_getArea :: "'n Rectangle \<Rightarrow> 'n Rectangle_prototype \<Rightarrow> 'n completion" where
  "call_getArea r proto =
     (case getArea proto of
        None \<Rightarrow> Throw TypeError
      | Some method \<Rightarrow> Return (method r))"

subsection \<open>getJSON and fromJSON\<close>

text \<open>
  The values \<^verbatim>\<open>JSON.parse\<close> yields, and the plain data given to \<^verbatim>\<open>JSON.stringify\<close>:
  an object is the list of its own enumerable properties, in the order in which
  \<^verbatim>\<open>Object.keys\<close> lists them.
\<close>

datatype 'n jsval =
    JUndefined
  | JNull
  | JBool bool
  | JNum 'n
  | JStr string
  | JArr "'n jsval list"
  | JObj "(string \<times> 'n jsval) list"

text \<open>
  The object \<^verbatim>\<open>fromJSON\<close> builds is an ordinary object: it has a prototype (an object
  or \<^verbatim>\<open>null\<close>), it is extensible or not, and its own properties are data properties
  (a value, writable or not) or accessor properties (with a setter or without). Other
  objects and functions are named by references.
\<close>

type_synonym pref = nat

type_synonym fref = nat

datatype 'n own_property =
    OwnData "'n jsval" bool
  | OwnAccessor "fref option"

record 'n object =
  prototype :: "pref option"
  extensible :: bool
  own :: "string \<Rightarrow> 'n own_property option"

text \<open>
  What an assignment \<^verbatim>\<open>r[k] = v\<close> meets when it does not find \<open>k\<close> on \<open>r\<close> itself and
  goes up the prototype chain from the object \<open>p\<close>: a data property (writable or
  not), an accessor property (with a setter or without), or, before any of these, an
  exotic object (a \<^verbatim>\<open>Proxy\<close>, a typed array, ...) that has an assignment of its own.
\<close>

datatype found =
    DataProperty bool
  | AccessorProperty "fref option"
  | ExoticObject pref

text \<open>
  The rest of the program's objects are not part of this file. They enter as a state
  \<open>'w\<close> of which nothing is fixed, and three functions of it: \<open>lookup\<close>, what the walk
  up the chain from an object finds for a key (\<open>None\<close>: the chain ends without it);
  \<open>call_setter\<close>, a setter called with a value and the assigned object as \<^verbatim>\<open>this\<close>;
  \<open>exotic_set\<close>, the assignment of an exotic object, given the key, the value and the
  assigned object as receiver. A setter or an exotic assignment is code of the caller:
  it may change the state, may change the assigned object in any way (its prototype,
  its properties, whether it is extensible), and may throw.
\<close>

record ('n, 'w) host =
  lookup :: "'w \<Rightarrow> pref \<Rightarrow> string \<Rightarrow> found option"
  call_setter :: "'w \<Rightarrow> fref \<Rightarrow> 'n jsval \<Rightarrow> 'n object \<Rightarrow> 'n object completion \<times> 'w"
  exotic_set ::
    "'w \<Rightarrow> pref \<Rightarrow> string \<Rightarrow> 'n jsval \<Rightarrow> 'n object \<Rightarrow> 'n object completion \<times> 'w"

text \<open>
  The first argument of \<^verbatim>\<open>fromJSON\<close>: \<^verbatim>\<open>Object.create\<close> takes an object or
  \<^verbatim>\<open>null\<close> and throws a \<^verbatim>\<open>TypeError\<close> on anything else.
\<close>

datatype proto_arg =
    ProtoObject pref
  | ProtoNull
  | NotAnObject

definition Object_create :: "proto_arg \<Rightarrow> 'n object completion" where
  "Object_create x =
     (case x of
        ProtoObject p \<Rightarrow> Return \<lparr>prototype = Some p, extensible = True, own = Map.empty\<rparr>
      | ProtoNull \<Rightarrow> Return \<lparr>prototype = None, extensible = True, own = Map.empty\<rparr>
      | NotAnObject \<Rightarrow> Throw TypeError)"

text \<open>
  The assignment \<^verbatim>\<open>r[k] = v\<close> in non-strict code (the file has no \<^verbatim>\<open>'use strict'\<close>
  and \<^verbatim>\<open>fromJSON\<close> and its arrow function are plain functions), where an assignment
  that is refused is silently dropped. An own writable data property gets the value;
  an own read-only one stays; an own accessor is called if it has a setter. Without
  an own property the prototype chain decides: a writable data property on it, or
  none, and \<open>r\<close> gets an own property when it is extensible; a read-only data
  property or an accessor without a setter, and nothing happens; an accessor with a
  setter, and the setter is called; an exotic object, and its assignment is called.
\<close>

definition define_own :: "string \<Rightarrow> 'n jsval \<Rightarrow> 'n object \<Rightarrow> 'n object" where
  "define_own k v r = (if extensible r then r\<lparr>own := (own r)(k \<mapsto> OwnData v True)\<rparr> else r)"

definition assign ::
  "('n, 'w) host \<Rightarrow> string \<Rightarrow> 'n jsval \<Rightarrow> 'w \<Rightarrow> 'n object \<Rightarrow> 'n object completion \<times> 'w" where
  "assign h k v w r =
     (case own r k of
        Some (OwnData old is_writable) \<Rightarrow>
          (Return (if is_writable then r\<lparr>own := (own r)(k \<mapsto> OwnData v True)\<rparr> else r), w)
      | Some (OwnAccessor None) \<Rightarrow> (Return r, w)
      | Some (OwnAccessor (Some setter)) \<Rightarrow> call_setter h w setter v r
      | None \<Rightarrow>
          (case (case prototype r of None \<Rightarrow> None | Some p \<Rightarrow> lookup h w p k) of
             None \<Rightarrow> (Return (define_own k v r), w)
           | Some (DataProperty is_writable) \<Rightarrow>
               (Return (if is_writable then define_own k v r else r), w)
           | Some (AccessorProperty None) \<Rightarrow> (Return r, w)
           | Some (AccessorProperty (Some setter)) \<Rightarrow> call_setter h w setter v r
           | Some (ExoticObject p) \<Rightarrow> exotic_set h w p k v r))"

text \<open>Array and string indices as property keys: decimal numerals.\<close>

fun dec :: "nat \<Rightarrow> string" where
  "dec n =
     (if n < 10 then [char_of (48 + n)]
      else dec (n div 10) @ [char_of (48 + n mod 10)])"

declare dec.simps [simp del]

text \<open>
  The own enumerable properties of a value as \<^verbatim>\<open>Object.keys\<close> and \<^verbatim>\<open>j[k]\<close> see it:
  those of an object; the elements of an array and the characters of a string under
  their indices; none for a number or a boolean; \<^verbatim>\<open>Object.keys\<close> of \<^verbatim>\<open>null\<close> or
  \<^verbatim>\<open>undefined\<close> throws a \<^verbatim>\<open>TypeError\<close> (\<open>None\<close>).
\<close>

fun own_enumerable :: "'n jsval \<Rightarrow> (string \<times> 'n jsval) list option" where
  "own_enumerable (JObj kvs) = Some kvs"
| "own_enumerable (JArr xs) = Some (zip (map dec [0..<length xs]) xs)"
| "own_enumerable (JStr s) = Some (zip (map dec [0..<length s]) (map (\<lambda>c. JStr [c]) s))"
| "own_enumerable (JNum n) = Some []"
| "own_enumerable (JBool b) = Some []"
| "own_enumerable JNull = None"
| "own_enumerable JUndefined = None"

definition property :: "(string \<times> 'n jsval) list \<Rightarrow> string \<Rightarrow> 'n jsval" where
  "property ps k = (case map_of ps k of Some v \<Rightarrow> v | None \<Rightarrow> JUndefined)"

text \<open>
  \<^verbatim>\<open>forEach\<close> over the keys: the callback is called for each key in turn on the
  state and the object the previous call left; a throw of the callback ends the loop.
\<close>

fun forEach ::
  "(string \<Rightarrow> 'w \<Rightarrow> 'o \<Rightarrow> 'o completion \<times> 'w) \<Rightarrow> string list \<Rightarrow> 'w \<Rightarrow> 'o
     \<Rightarrow> 'o completion \<times> 'w" where
  "forEach callback [] w r = (Return r, w)"
| "forEach callback (k # ks) w r =
     (case callback k w r of
        (Return r', w') \<Rightarrow> forEach callback ks w' r'
      | (Throw e, w') \<Rightarrow> (Throw e, w'))"

text \<open>
  \<^verbatim>\<open>JSON.stringify\<close> and \<^verbatim>\<open>JSON.parse\<close> belong to the language's library, not to this
  file: the two functions take them as parameters. \<^verbatim>\<open>JSON.stringify\<close> returns a string
  or \<^verbatim>\<open>undefined\<close> (\<open>None\<close>); \<^verbatim>\<open>JSON.parse\<close> turns its argument into a string
  (\<^verbatim>\<open>undefined\<close> into the text \<^verbatim>\<open>undefined\<close>) and returns a value or throws.
\<close>

definition getJSON :: "('n jsval \<Rightarrow> string option) \<Rightarrow> 'n jsval \<Rightarrow> string option" where
  "getJSON JSON_stringify x = JSON_stringify x"

fun to_text :: "string option \<Rightarrow> string" where
  "to_text (Some s) = s"
| "to_text None = ''undefined''"

definition fromJSON ::
  "(string \<Rightarrow> 'n jsval completion) \<Rightarrow> ('n, 'w) host \<Rightarrow> proto_arg \<Rightarrow> string option \<Rightarrow> 'w
     \<Rightarrow> 'n object completion \<times> 'w" where
  "fromJSON JSON_parse h x y w =
     (case Object_create x of
        Throw e \<Rightarrow> (Throw e, w)
      | Return r \<Rightarrow>
          (case JSON_parse (to_text y) of
             Throw e \<Rightarrow> (Throw e, w)
           | Return j \<Rightarrow>
               (case own_enumerable j of
                  None \<Rightarrow> (Throw TypeError, w)
                | Some ps \<Rightarrow> forEach (\<lambda>k. assign h k (property ps k)) (map fst ps) w r)))"

text \<open>
  A key for which an assignment on a new object with prototype \<open>p\<close> creates an own
  property: going up from \<open>p\<close>, nothing is found for it, or a writable data property.
\<close>

definition creates_own :: "('n, 'w) host \<Rightarrow> 'w \<Rightarrow> pref \<Rightarrow> string \<Rightarrow> bool" where
  "creates_own h w p k =
     (case lookup h w p k of
        None \<Rightarrow> True
      | Some (DataProperty is_writable) \<Rightarrow> is_writable
      | Some (AccessorProperty setter) \<Rightarrow> False
      | Some (ExoticObject q) \<Rightarrow> False)"

section \<open>The CSS selector builder\<close>

subsection \<open>class Builder\<close>

text \<open>
  The six fields the constructor assigns. \<^verbatim>\<open>el\<close> and \<^verbatim>\<open>pseudo\<close> hold
  \<^verbatim>\<open>null\<close> or \<^verbatim>\<open>true\<close> and are only tested for truthiness: \<^verbatim>\<open>null\<close> is
  \<open>False\<close>. \<^verbatim>\<open>order\<close> only ever receives the literals 0 to 5; its truthiness test
  \<^verbatim>\<open>if (this.order)\<close> is \<open>order \<noteq> 0\<close>. Fragment values are strings, \<^verbatim>\<open>+=\<close> and
  the template literals are concatenation.
\<close>

record Builder =
  result :: string
  el :: bool
  pseudo :: bool
  error :: string
  orderError :: string
  order :: nat

definition Builder_constructor :: Builder where
  "Builder_constructor =
     \<lparr> result = '''',
       el = False,
       pseudo = False,
       error = ''Element, id and pseudo-element should not occur more then one time inside the selector'',
       orderError = ''Selector parts should be arranged in the following order: element, id, class, attribute, pseudo-class, pseudo-element'',
       order = 0 \<rparr>"

text \<open>
  Every method that returns \<^verbatim>\<open>this\<close> is modelled as returning \<open>()\<close> together with
  the receiver's new state.
\<close>

definition Builder_element :: "string \<Rightarrow> Builder \<Rightarrow> unit completion \<times> Builder" where
  "Builder_element val this =
     (if order this \<noteq> 0 then (Throw (Error (orderError this)), this)
      else if el this then (Throw (Error (error this)), this)
      else (Return (), this\<lparr>el := True, result := result this @ val\<rparr>))"

definition Builder_id :: "string \<Rightarrow> Builder \<Rightarrow> unit completion \<times> Builder" where
  "Builder_id val this =
     (if order this > 1 then (Throw (Error (orderError this)), this)
      else if order this \<noteq> 0 then (Throw (Error (error this)), this)
      else (Return (), this\<lparr>order := 1, result := result this @ ''#'' @ val\<rparr>))"

definition Builder_class :: "string \<Rightarrow> Builder \<Rightarrow> unit completion \<times> Builder" where
  "Builder_class val this =
     (if order this > 2 then (Throw (Error (orderError this)), this)
      else (Return (), this\<lparr>order := 2, result := result this @ ''.'' @ val\<rparr>))"

definition Builder_attr :: "string \<Rightarrow> Builder \<Rightarrow> unit completion \<times> Builder" where
  "Builder_attr val this =
     (if order this > 3 then (Throw (Error (orderError this)), this)
      else (Return (), this\<lparr>order := 3, result := result this @ ''['' @ val @ '']''\<rparr>))"

definition Builder_pseudoClass :: "string \<Rightarrow> Builder \<Rightarrow> unit completion \<times> Builder" where
  "Builder_pseudoClass val this =
     (if order this > 4 then (Throw (Error (orderError this)), this)
      else (Return (), this\<lparr>order := 4, result := result this @ '':'' @ val\<rparr>))"

text \<open>\<^verbatim>\<open>pseudoElement\<close> assigns \<^verbatim>\<open>this.order = 5\<close> before it tests \<^verbatim>\<open>this.pseudo\<close>.\<close>

definition Builder_pseudoElement :: "string \<Rightarrow> Builder \<Rightarrow> unit completion \<times> Builder" where
  "Builder_pseudoElement val this =
     (let this1 = this\<lparr>order := 5\<rparr>
      in if pseudo this1 then (Throw (Error (error this1)), this1)
         else (Return (), this1\<lparr>pseudo := True, result := result this1 @ ''::'' @ val\<rparr>))"

definition Builder_stringify :: "Builder \<Rightarrow> string \<times> Builder" where
  "Builder_stringify this = (result this, this)"

text \<open>
  \<^verbatim>\<open>combine\<close> on the level of one receiver: \<open>selector1\<close> and \<open>selector2\<close> are the
  argument objects as they are when the call is made; the method calls \<^verbatim>\<open>stringify\<close>
  on the first, then on the second, and then assigns \<^verbatim>\<open>this.result\<close>.
\<close>

definition Builder_combine ::
  "Builder \<Rightarrow> string \<Rightarrow> Builder \<Rightarrow> Builder \<Rightarrow> unit completion \<times> Builder" where
  "Builder_combine selector1 combinator selector2 this =
     (let s1 = fst (Builder_stringify selector1);
          s2 = fst (Builder_stringify selector2)
      in (Return (), this\<lparr>result := s1 @ '' '' @ combinator @ '' '' @ s2\<rparr>))"

subsection \<open>Fragments and chained calls\<close>

text \<open>
  A fragment names one of the six appending methods together with its argument;
  \<open>append\<close> is the call of that method on a builder.
\<close>

datatype fragment =
    Element string
  | Id string
  | Class string
  | Attr string
  | PseudoClass string
  | PseudoElement string

fun append :: "fragment \<Rightarrow> Builder \<Rightarrow> unit completion \<times> Builder" where
  "append (Element v) this = Builder_element v this"
| "append (Id v) this = Builder_id v this"
| "append (Class v) this = Builder_class v this"
| "append (Attr v) this = Builder_attr v this"
| "append (PseudoClass v) this = Builder_pseudoClass v this"
| "append (PseudoElement v) this = Builder_pseudoElement v this"

text \<open>The position of a fragment's category in the order named by \<^verbatim>\<open>orderError\<close>.\<close>

fun rank :: "fragment \<Rightarrow> nat" where
  "rank (Element v) = 0"
| "rank (Id v) = 1"
| "rank (Class v) = 2"
| "rank (Attr v) = 3"
| "rank (PseudoClass v) = 4"
| "rank (PseudoElement v) = 5"

text \<open>
  A chain \<^verbatim>\<open>b.m1(v1).m2(v2)...\<close>: each method is called on the object the previous one
  returned, which is the receiver itself; the first throw ends the chain.
\<close>

fun chain :: "fragment list \<Rightarrow> Builder \<Rightarrow> unit completion \<times> Builder" where
  "chain [] this = (Return (), this)"
| "chain (f # fs) this =
     (case append f this of
        (Return u, this') \<Rightarrow> chain fs this'
      | (Throw e, this') \<Rightarrow> (Throw e, this'))"

text \<open>An optional fragment value, as the list of the calls it stands for.\<close>

fun opt :: "'a option \<Rightarrow> 'a list" where
  "opt None = []"
| "opt (Some v) = [v]"

subsection \<open>The facade cssSelectorBuilder\<close>

text \<open>
  Each entry point constructs a builder, calls one method on it and returns the object;
  a throw of the method would leave the entry point as a throw.
\<close>

fun returning :: "unit completion \<times> Builder \<Rightarrow> Builder completion" where
  "returning (Return u, obj) = Return obj"
| "returning (Throw e, obj) = Throw e"

definition cssSelectorBuilder_element :: "string \<Rightarrow> Builder completion" where
  "cssSelectorBuilder_element val = returning (Builder_element val Builder_constructor)"

definition cssSelectorBuilder_id :: "string \<Rightarrow> Builder completion" where
  "cssSelectorBuilder_id val = returning (Builder_id val Builder_constructor)"

definition cssSelectorBuilder_class :: "string \<Rightarrow> Builder completion" where
  "cssSelectorBuilder_class val = returning (Builder_class val Builder_constructor)"

definition cssSelectorBuilder_attr :: "string \<Rightarrow> Builder completion" where
  "cssSelectorBuilder_attr val = returning (Builder_attr val Builder_constructor)"

definition cssSelectorBuilder_pseudoClass :: "string \<Rightarrow> Builder completion" where
  "cssSelectorBuilder_pseudoClass val = returning (Builder_pseudoClass val Builder_constructor)"

definition cssSelectorBuilder_pseudoElement :: "string \<Rightarrow> Builder completion" where
  "cssSelectorBuilder_pseudoElement val =
     returning (Builder_pseudoElement val Builder_constructor)"

definition cssSelectorBuilder_combine ::
  "Builder \<Rightarrow> string \<Rightarrow> Builder \<Rightarrow> Builder completion" where
  "cssSelectorBuilder_combine selector1 combinator selector2 =
     returning (Builder_combine selector1 combinator selector2 Builder_constructor)"

subsection \<open>The states a builder can be in\<close>

text \<open>
  A caller can do three things with a builder: append a fragment, call \<^verbatim>\<open>combine\<close> with
  two builders and a combinator, and call \<^verbatim>\<open>stringify\<close>. \<open>perform\<close> is the state of the
  receiver after one such call, whether the call returned or threw (the caller may catch
  the exception and go on using the object); \<open>Builder_after cs\<close> is the state of a
  builder after the calls \<open>cs\<close> since its construction.
\<close>

datatype call =
    Append fragment
  | Combine Builder string Builder
  | Stringify

fun perform :: "call \<Rightarrow> Builder \<Rightarrow> Builder" where
  "perform (Append f) this = snd (append f this)"
| "perform (Combine selector1 combinator selector2) this =
     snd (Builder_combine selector1 combinator selector2 this)"
| "perform Stringify this = snd (Builder_stringify this)"

definition Builder_after :: "call list \<Rightarrow> Builder" where
  "Builder_after cs = foldl (\<lambda>this c. perform c this) Builder_constructor cs"

text \<open>
  No method writes \<^verbatim>\<open>error\<close> or \<^verbatim>\<open>orderError\<close>; \<^verbatim>\<open>order\<close> stays within 0..5; and,
  since \<^verbatim>\<open>pseudo\<close> is only set after \<^verbatim>\<open>order\<close> was set to 5 and nothing lowers
  \<^verbatim>\<open>order\<close> again, a builder that has a pseudo-element has \<^verbatim>\<open>order\<close> 5.
\<close>

definition Builder_inv :: "Builder \<Rightarrow> bool" where
  "Builder_inv b \<longleftrightarrow>
     order b \<le> 5 \<and> (pseudo b \<longrightarrow> order b = 5)
     \<and> error b = error Builder_constructor
     \<and> orderError b = orderError Builder_constructor"

subsection \<open>Builders as shared objects\<close>

text \<open>
  Where it matters which object a call writes to, builders live in a store and are
  named by references. \<open>invoke\<close> calls a method on the object a reference names and
  writes the receiver's new state back. \<^verbatim>\<open>combine\<close> in the store calls \<^verbatim>\<open>stringify\<close>
  on its first argument, then on its second, and then assigns \<^verbatim>\<open>result\<close> of its
  receiver; the three references may name the same object.
\<close>

type_synonym ref = nat

type_synonym store = "ref \<Rightarrow> Builder"

definition invoke :: "(Builder \<Rightarrow> 'a \<times> Builder) \<Rightarrow> ref \<Rightarrow> store \<Rightarrow> 'a \<times> store" where
  "invoke method obj \<sigma> = (case method (\<sigma> obj) of (x, this') \<Rightarrow> (x, \<sigma>(obj := this')))"

definition Builder_combine_in ::
  "ref \<Rightarrow> string \<Rightarrow> ref \<Rightarrow> ref \<Rightarrow> store \<Rightarrow> unit completion \<times> store" where
  "Builder_combine_in selector1 combinator selector2 this \<sigma> =
     (case invoke Builder_stringify selector1 \<sigma> of (s1, \<sigma>1) \<Rightarrow>
      case invoke Builder_stringify selector2 \<sigma>1 of (s2, \<sigma>2) \<Rightarrow>
        (Return (), \<sigma>2(this := (\<sigma>2 this)\<lparr>result := s1 @ '' '' @ combinator @ '' '' @ s2\<rparr>)))"

section \<open>Properties of the builder\<close>

subsection \<open>Chains of appends\<close>

lemmas method_defs =
  Builder_element_def Builder_id_def Builder_class_def Builder_attr_def
  Builder_pseudoClass_def Builder_pseudoElement_def

lemma chain_append:
  "chain (xs @ ys) b =
     (case chain xs b of
        (Return u, b') \<Rightarrow> chain ys b'
      | (Throw e, b') \<Rightarrow> (Throw e, b'))"
  by (induction xs arbitrary: b) (auto split: prod.splits completion.splits)

lemma chain_then:
  assumes "chain xs b = (Return (), b1)" and "chain ys b1 = (Return (), b2)"
  shows "chain (xs @ ys) b = (Return (), b2)"
  using assms by (simp add: chain_append)

lemma seg_element:
  assumes "order b = 0" and "\<not> el b"
  shows "\<exists>b'. chain (map Element (opt e)) b = (Return (), b')
     \<and> result b' = result b @ concat (opt e)
     \<and> order b' = 0 \<and> pseudo b' = pseudo b"
  using assms by (cases e) (simp_all add: Builder_element_def)

lemma seg_id:
  assumes "order b = 0"
  shows "\<exists>b'. chain (map Id (opt i)) b = (Return (), b')
     \<and> result b' = result b @ concat (map (\<lambda>v. ''#'' @ v) (opt i))
     \<and> order b' \<le> 1 \<and> pseudo b' = pseudo b"
  using assms by (cases i) (simp_all add: Builder_id_def)

lemma seg_class:
  assumes "order b \<le> 2"
  shows "\<exists>b'. chain (map Class cs) b = (Return (), b')
     \<and> result b' = result b @ concat (map (\<lambda>v. ''.'' @ v) cs)
     \<and> order b' \<le> 2 \<and> pseudo b' = pseudo b"
  using assms
proof (induction cs arbitrary: b)
  case Nil
  then show ?case by simp
next
  case (Cons c cs)
  let ?b1 = "b\<lparr>order := 2, result := result b @ ''.'' @ c\<rparr>"
  from Cons.prems have step: "Builder_class c b = (Return (), ?b1)"
    by (simp add: Builder_class_def)
  from Cons.IH [of ?b1] obtain b' where
    "chain (map Class cs) ?b1 = (Return (), b')"
    "result b' = result ?b1 @ concat (map (\<lambda>v. ''.'' @ v) cs)"
    "order b' \<le> 2" "pseudo b' = pseudo ?b1"
    by auto
  with step show ?case by simp
qed

lemma seg_attr:
  assumes "order b \<le> 3"
  shows "\<exists>b'. chain (map Attr as) b = (Return (), b')
     \<and> result b' = result b @ concat (map (\<lambda>v. ''['' @ v @ '']'') as)
     \<and> order b' \<le> 3 \<and> pseudo b' = pseudo b"
  using assms
proof (induction as arbitrary: b)
  case Nil
  then show ?case by simp
next
  case (Cons a as)
  let ?b1 = "b\<lparr>order := 3, result := result b @ ''['' @ a @ '']''\<rparr>"
  from Cons.prems have step: "Builder_attr a b = (Return (), ?b1)"
    by (simp add: Builder_attr_def)
  from Cons.IH [of ?b1] obtain b' where
    "chain (map Attr as) ?b1 = (Return (), b')"
    "result b' = result ?b1 @ concat (map (\<lambda>v. ''['' @ v @ '']'') as)"
    "order b' \<le> 3" "pseudo b' = pseudo ?b1"
    by auto
  with step show ?case by simp
qed

lemma seg_pseudoClass:
  assumes "order b \<le> 4"
  shows "\<exists>b'. chain (map PseudoClass ps) b = (Return (), b')
     \<and> result b' = result b @ concat (map (\<lambda>v. '':'' @ v) ps)
     \<and> pseudo b' = pseudo b"
  using assms
proof (induction ps arbitrary: b)
  case Nil
  then show ?case by simp
next
  case (Cons p ps)
  let ?b1 = "b\<lparr>order := 4, result := result b @ '':'' @ p\<rparr>"
  from Cons.prems have step: "Builder_pseudoClass p b = (Return (), ?b1)"
    by (simp add: Builder_pseudoClass_def)
  from Cons.IH [of ?b1] obtain b' where
    "chain (map PseudoClass ps) ?b1 = (Return (), b')"
    "result b' = result ?b1 @ concat (map (\<lambda>v. '':'' @ v) ps)"
    "pseudo b' = pseudo ?b1"
    by auto
  with step show ?case by simp
qed

lemma seg_pseudoElement:
  assumes "\<not> pseudo b"
  shows "\<exists>b'. chain (map PseudoElement (opt pe)) b = (Return (), b')
     \<and> result b' = result b @ concat (map (\<lambda>v. ''::'' @ v) (opt pe))"
  using assms by (cases pe) (simp_all add: Builder_pseudoElement_def)

text \<open>
  C1. A chain of appends in a valid category order (an optional element, an optional id,
  classes, attributes, pseudo-classes, an optional pseudo-element) on a new builder
  returns, and \<^verbatim>\<open>stringify()\<close> then gives the fragments in call order without
  separators: the element as it is, \<^verbatim>\<open>#\<close>id, \<^verbatim>\<open>.\<close>class, \<^verbatim>\<open>[\<close>attribute\<^verbatim>\<open>]\<close>,
  \<^verbatim>\<open>:\<close>pseudo-class and \<^verbatim>\<open>::\<close>pseudo-element.
\<close>

theorem C1_valid_chain_stringify:
  "\<exists>b. chain (map Element (opt e) @ map Id (opt i) @ map Class cs @ map Attr as
              @ map PseudoClass ps @ map PseudoElement (opt pe)) Builder_constructor
          = (Return (), b)
     \<and> fst (Builder_stringify b)
          = concat (opt e) @ concat (map (\<lambda>v. ''#'' @ v) (opt i))
            @ concat (map (\<lambda>v. ''.'' @ v) cs) @ concat (map (\<lambda>v. ''['' @ v @ '']'') as)
            @ concat (map (\<lambda>v. '':'' @ v) ps) @ concat (map (\<lambda>v. ''::'' @ v) (opt pe))"
proof -
  let ?b0 = Builder_constructor
  have init: "order ?b0 = 0" "\<not> el ?b0" "\<not> pseudo ?b0" "result ?b0 = []"
    by (simp_all add: Builder_constructor_def)
  from seg_element [OF init(1,2), of e] obtain b1 where
    c1: "chain (map Element (opt e)) ?b0 = (Return (), b1)"
    and r1: "result b1 = result ?b0 @ concat (opt e)"
    and o1: "order b1 = 0" and p1: "pseudo b1 = pseudo ?b0"
    by blast
  from seg_id [OF o1, of i] obtain b2 where
    c2: "chain (map Id (opt i)) b1 = (Return (), b2)"
    and r2: "result b2 = result b1 @ concat (map (\<lambda>v. ''#'' @ v) (opt i))"
    and o2: "order b2 \<le> 1" and p2: "pseudo b2 = pseudo b1"
    by blast
  from o2 have o2': "order b2 \<le> 2" by simp
  from seg_class [OF o2', of cs] obtain b3 where
    c3: "chain (map Class cs) b2 = (Return (), b3)"
    and r3: "result b3 = result b2 @ concat (map (\<lambda>v. ''.'' @ v) cs)"
    and o3: "order b3 \<le> 2" and p3: "pseudo b3 = pseudo b2"
    by blast
  from o3 have o3': "order b3 \<le> 3" by simp
  from seg_attr [OF o3', of as] obtain b4 where
    c4: "chain (map Attr as) b3 = (Return (), b4)"
    and r4: "result b4 = result b3 @ concat (map (\<lambda>v. ''['' @ v @ '']'') as)"
    and o4: "order b4 \<le> 3" and p4: "pseudo b4 = pseudo b3"
    by blast
  from o4 have o4': "order b4 \<le> 4" by simp
  from seg_pseudoClass [OF o4', of ps] obtain b5 where
    c5: "chain (map PseudoClass ps) b4 = (Return (), b5)"
    and r5: "result b5 = result b4 @ concat (map (\<lambda>v. '':'' @ v) ps)"
    and p5: "pseudo b5 = pseudo b4"
    by blast
  from init(3) p1 p2 p3 p4 p5 have np: "\<not> pseudo b5" by simp
  from seg_pseudoElement [OF np, of pe] obtain b6 where
    c6: "chain (map PseudoElement (opt pe)) b5 = (Return (), b6)"
    and r6: "result b6 = result b5 @ concat (map (\<lambda>v. ''::'' @ v) (opt pe))"
    by blast
  have "chain (map Element (opt e) @ map Id (opt i) @ map Class cs @ map Attr as
              @ map PseudoClass ps @ map PseudoElement (opt pe)) ?b0 = (Return (), b6)"
    by (intro chain_then [OF c1] chain_then [OF c2] chain_then [OF c3]
          chain_then [OF c4] chain_then [OF c5] c6)
  moreover have "fst (Builder_stringify b6)
          = concat (opt e) @ concat (map (\<lambda>v. ''#'' @ v) (opt i))
            @ concat (map (\<lambda>v. ''.'' @ v) cs) @ concat (map (\<lambda>v. ''['' @ v @ '']'') as)
            @ concat (map (\<lambda>v. '':'' @ v) ps) @ concat (map (\<lambda>v. ''::'' @ v) (opt pe))"
    by (simp add: Builder_stringify_def r6 r5 r4 r3 r2 r1 init(4))
  ultimately show ?thesis by blast
qed

theorem C1_witness:
  "chain [Element ''div'', Id ''main'', Class ''container'', Class ''editable'',
          Attr ''data-x'', PseudoClass ''hover'', PseudoElement ''after''] Builder_constructor
     = (Return (),
        Builder_constructor\<lparr>result := ''div#main.container.editable[data-x]:hover::after'',
                            el := True, pseudo := True, order := 5\<rparr>)"
  using C1_valid_chain_stringify [of "Some ''div''" "Some ''main''"
      "[''container'', ''editable'']" "[''data-x'']" "[''hover'']" "Some ''after''"]
  by (simp add: method_defs Builder_constructor_def)

text \<open>
  The entry points of the facade are the first call of a chain on a new builder, and
  none of them throws.
\<close>

lemma facade_first_call:
  "cssSelectorBuilder_element v = returning (chain [Element v] Builder_constructor)"
  "cssSelectorBuilder_id v = returning (chain [Id v] Builder_constructor)"
  "cssSelectorBuilder_class v = returning (chain [Class v] Builder_constructor)"
  "cssSelectorBuilder_attr v = returning (chain [Attr v] Builder_constructor)"
  "cssSelectorBuilder_pseudoClass v = returning (chain [PseudoClass v] Builder_constructor)"
  "cssSelectorBuilder_pseudoElement v = returning (chain [PseudoElement v] Builder_constructor)"
  by (simp_all add: cssSelectorBuilder_element_def cssSelectorBuilder_id_def
      cssSelectorBuilder_class_def cssSelectorBuilder_attr_def
      cssSelectorBuilder_pseudoClass_def cssSelectorBuilder_pseudoElement_def
      method_defs Builder_constructor_def)

lemma facade_returns:
  "cssSelectorBuilder_element v = Return (Builder_constructor\<lparr>el := True, result := v\<rparr>)"
  "cssSelectorBuilder_id v = Return (Builder_constructor\<lparr>order := 1, result := ''#'' @ v\<rparr>)"
  "cssSelectorBuilder_class v = Return (Builder_constructor\<lparr>order := 2, result := ''.'' @ v\<rparr>)"
  "cssSelectorBuilder_attr v
     = Return (Builder_constructor\<lparr>order := 3, result := ''['' @ v @ '']''\<rparr>)"
  "cssSelectorBuilder_pseudoClass v
     = Return (Builder_constructor\<lparr>order := 4, result := '':'' @ v\<rparr>)"
  "cssSelectorBuilder_pseudoElement v
     = Return (Builder_constructor\<lparr>order := 5, pseudo := True, result := ''::'' @ v\<rparr>)"
  by (simp_all add: cssSelectorBuilder_element_def cssSelectorBuilder_id_def
      cssSelectorBuilder_class_def cssSelectorBuilder_attr_def
      cssSelectorBuilder_pseudoClass_def cssSelectorBuilder_pseudoElement_def
      method_defs Builder_constructor_def)

subsection \<open>What every reachable builder satisfies\<close>

lemma inv_constructor: "Builder_inv Builder_constructor"
  by (simp add: Builder_inv_def Builder_constructor_def)

lemma inv_append: "Builder_inv b \<Longrightarrow> Builder_inv (snd (append f b))"
  by (cases f) (auto simp: Builder_inv_def method_defs Let_def split: if_splits)

lemma inv_perform: "Builder_inv b \<Longrightarrow> Builder_inv (perform c b)"
proof (cases c)
  case (Append f)
  assume "Builder_inv b"
  with Append show ?thesis by (simp add: inv_append)
next
  case (Combine s1 k s2)
  assume "Builder_inv b"
  with Combine show ?thesis
    by (simp add: Builder_inv_def Builder_combine_def Let_def)
next
  case Stringify
  assume "Builder_inv b"
  with Stringify show ?thesis by (simp add: Builder_stringify_def)
qed

lemma inv_foldl: "Builder_inv b \<Longrightarrow> Builder_inv (foldl (\<lambda>this c. perform c this) b cs)"
  by (induction cs arbitrary: b) (simp_all add: inv_perform)

lemma inv_after: "Builder_inv (Builder_after cs)"
  unfolding Builder_after_def by (rule inv_foldl [OF inv_constructor])

lemma order_after: "order (Builder_after cs) \<le> 5"
  using inv_after [of cs] by (simp add: Builder_inv_def)

lemma messages_after:
  "error (Builder_after cs)
     = ''Element, id and pseudo-element should not occur more then one time inside the selector''"
  "orderError (Builder_after cs)
     = ''Selector parts should be arranged in the following order: element, id, class, attribute, pseudo-class, pseudo-element''"
  using inv_after [of cs] by (simp_all add: Builder_inv_def Builder_constructor_def)

text \<open>The flags record what was appended: a call that returns sets them, no call clears them.\<close>

lemma element_sets_el: "Builder_element v b = (Return (), b') \<Longrightarrow> el b'"
  by (auto simp: Builder_element_def split: if_splits)

lemma id_sets_order: "Builder_id v b = (Return (), b') \<Longrightarrow> order b' = 1"
  by (auto simp: Builder_id_def split: if_splits)

lemma pseudoElement_sets_pseudo: "Builder_pseudoElement v b = (Return (), b') \<Longrightarrow> pseudo b'"
  by (auto simp: Builder_pseudoElement_def Let_def split: if_splits)

lemma el_kept: "el b \<Longrightarrow> el (perform c b)"
proof (cases c)
  case (Append f)
  assume "el b"
  with Append show ?thesis
    by (cases f) (auto simp: method_defs Let_def)
next
  case (Combine s1 k s2)
  assume "el b"
  with Combine show ?thesis by (simp add: Builder_combine_def Let_def)
next
  case Stringify
  assume "el b"
  with Stringify show ?thesis by (simp add: Builder_stringify_def)
qed

lemma pseudo_kept: "pseudo b \<Longrightarrow> pseudo (perform c b)"
proof (cases c)
  case (Append f)
  assume "pseudo b"
  with Append show ?thesis
    by (cases f) (auto simp: method_defs Let_def)
next
  case (Combine s1 k s2)
  assume "pseudo b"
  with Combine show ?thesis by (simp add: Builder_combine_def Let_def)
next
  case Stringify
  assume "pseudo b"
  with Stringify show ?thesis by (simp add: Builder_stringify_def)
qed

subsection \<open>Single calls\<close>

lemma order_violation:
  assumes "order b \<le> 5" and "rank f < order b"
  shows "append f b = (Throw (Error (orderError b)), b)"
  using assms by (cases f) (simp_all add: method_defs)

text \<open>
  C2. On a builder whose \<^verbatim>\<open>order\<close> is one of 0..5, each of the six appending calls
  whose category rank (element 0, id 1, class 2, attribute 3, pseudo-class 4,
  pseudo-element 5) is below the recorded \<^verbatim>\<open>order\<close> throws the error that carries
  \<^verbatim>\<open>this.orderError\<close>.
\<close>

theorem C2_lower_rank_throws_orderError:
  assumes "order b \<le> 5" and "rank f < order b"
  shows "fst (append f b) = Throw (Error (orderError b))"
  using assms by (simp add: order_violation)

theorem C2_witness:
  "order (snd (Builder_class ''a'' Builder_constructor)) \<le> 5
   \<and> rank (Id ''b'') < order (snd (Builder_class ''a'' Builder_constructor))
   \<and> fst (append (Id ''b'') (snd (Builder_class ''a'' Builder_constructor)))
       = Throw (Error ''Selector parts should be arranged in the following order: element, id, class, attribute, pseudo-class, pseudo-element'')"
  using C2_lower_rank_throws_orderError
    [of "snd (Builder_class ''a'' Builder_constructor)" "Id ''b''"]
  by (simp add: Builder_class_def Builder_constructor_def)

text \<open>The same for every state a builder can reach, with the text of the message.\<close>

lemma order_violation_after:
  assumes "rank f < order (Builder_after cs)"
  shows "fst (append f (Builder_after cs))
     = Throw (Error ''Selector parts should be arranged in the following order: element, id, class, attribute, pseudo-class, pseudo-element'')"
  using order_violation [OF order_after assms] by (simp add: messages_after)

lemma duplicate_element: "el b \<Longrightarrow> order b = 0 \<Longrightarrow> Builder_element v b = (Throw (Error (error b)), b)"
  by (simp add: Builder_element_def)

lemma duplicate_id: "order b = 1 \<Longrightarrow> Builder_id v b = (Throw (Error (error b)), b)"
  by (simp add: Builder_id_def)

lemma duplicate_pseudoElement:
  "pseudo b \<Longrightarrow> Builder_pseudoElement v b = (Throw (Error (error b)), b\<lparr>order := 5\<rparr>)"
  by (simp add: Builder_pseudoElement_def)

text \<open>
  C3, as stated, fails: after \<^verbatim>\<open>element('div').id('main')\<close> the builder has an element,
  and a second \<^verbatim>\<open>element('p')\<close> throws the order error, not the duplicate error, since
  the order test comes first.
\<close>

theorem C3_counterexample:
  "chain [Element ''div'', Id ''main''] Builder_constructor
     = (Return (), Builder_constructor\<lparr>result := ''div#main'', el := True, order := 1\<rparr>)
   \<and> el (Builder_constructor\<lparr>result := ''div#main'', el := True, order := 1\<rparr>)
   \<and> fst (Builder_element ''p''
        (Builder_constructor\<lparr>result := ''div#main'', el := True, order := 1\<rparr>))
       = Throw (Error ''Selector parts should be arranged in the following order: element, id, class, attribute, pseudo-class, pseudo-element'')
   \<and> fst (Builder_element ''p''
        (Builder_constructor\<lparr>result := ''div#main'', el := True, order := 1\<rparr>))
       \<noteq> Throw (Error ''Element, id and pseudo-element should not occur more then one time inside the selector'')"
  by (simp add: method_defs Builder_constructor_def)

text \<open>
  C3, amended. A second element on a builder that has an element and whose \<^verbatim>\<open>order\<close>
  is still 0, a second id on a builder whose \<^verbatim>\<open>order\<close> is 1 (an id was appended and
  nothing of a higher rank since), and a second pseudo-element on a builder that has a
  pseudo-element, each throw the error that carries \<^verbatim>\<open>this.error\<close>.
\<close>

theorem C3_duplicate_throws_error:
  "(el b \<and> order b = 0 \<longrightarrow> fst (Builder_element v b) = Throw (Error (error b)))
   \<and> (order b = 1 \<longrightarrow> fst (Builder_id v b) = Throw (Error (error b)))
   \<and> (pseudo b \<longrightarrow> fst (Builder_pseudoElement v b) = Throw (Error (error b)))"
  by (simp add: duplicate_element duplicate_id duplicate_pseudoElement)

theorem C3_witness:
  "fst (Builder_element ''div'' (snd (Builder_element ''table'' Builder_constructor)))
     = Throw (Error ''Element, id and pseudo-element should not occur more then one time inside the selector'')
   \<and> fst (Builder_id ''id2'' (snd (Builder_id ''id1'' Builder_constructor)))
     = Throw (Error ''Element, id and pseudo-element should not occur more then one time inside the selector'')
   \<and> fst (Builder_pseudoElement ''before''
        (snd (Builder_pseudoElement ''after'' Builder_constructor)))
     = Throw (Error ''Element, id and pseudo-element should not occur more then one time inside the selector'')"
  using
    C3_duplicate_throws_error
      [of "snd (Builder_element ''table'' Builder_constructor)" "''div''"]
    C3_duplicate_throws_error
      [of "snd (Builder_id ''id1'' Builder_constructor)" "''id2''"]
    C3_duplicate_throws_error
      [of "snd (Builder_pseudoElement ''after'' Builder_constructor)" "''before''"]
  by (simp add: method_defs Builder_constructor_def)

text \<open>
  C5. On a builder that has a pseudo-element, \<^verbatim>\<open>pseudoElement(value)\<close> throws the error
  that carries \<^verbatim>\<open>this.error\<close>, and the builder it leaves has \<^verbatim>\<open>order\<close> 5: the
  assignment comes before the test. Nothing else is written.
\<close>

theorem C5_pseudoElement_duplicate_sets_order:
  assumes "pseudo b"
  shows "fst (Builder_pseudoElement v b) = Throw (Error (error b))
     \<and> order (snd (Builder_pseudoElement v b)) = 5
     \<and> snd (Builder_pseudoElement v b) = b\<lparr>order := 5\<rparr>"
  using assms by (simp add: duplicate_pseudoElement)

theorem C5_witness:
  "pseudo (snd (Builder_pseudoElement ''after'' Builder_constructor))
   \<and> Builder_pseudoElement ''before'' (snd (Builder_pseudoElement ''after'' Builder_constructor))
     = (Throw (Error ''Element, id and pseudo-element should not occur more then one time inside the selector''),
        Builder_constructor\<lparr>result := ''::after'', pseudo := True, order := 5\<rparr>)"
  using C5_pseudoElement_duplicate_sets_order
    [of "snd (Builder_pseudoElement ''after'' Builder_constructor)" "''before''"]
  by (simp add: Builder_pseudoElement_def Builder_constructor_def)

lemma failed_append_unchanged:
  assumes "Builder_inv b" and "fst (append f b) = Throw e"
  shows "snd (append f b) = b"
proof (cases f)
  case (PseudoElement v)
  with assms(2) have "pseudo b"
    by (auto simp: Builder_pseudoElement_def Let_def split: if_splits)
  with assms(1) have "order b = 5"
    by (simp add: Builder_inv_def)
  with \<open>pseudo b\<close> PseudoElement show ?thesis
    by (simp add: Builder_pseudoElement_def)
qed (use assms(2) in \<open>auto simp: method_defs split: if_splits\<close>)

text \<open>
  The condition on the state is needed for \<^verbatim>\<open>pseudoElement\<close> only: on a record with
  \<^verbatim>\<open>pseudo\<close> set and \<^verbatim>\<open>order\<close> other than 5, which no sequence of calls produces, the
  rejected call would leave \<^verbatim>\<open>order\<close> changed.
\<close>

lemma pseudoElement_rejection_writes_order:
  assumes "pseudo b" and "order b \<noteq> 5"
  shows "fst (Builder_pseudoElement v b) = Throw (Error (error b))"
    and "snd (Builder_pseudoElement v b) \<noteq> b"
proof -
  from assms(1) have after: "Builder_pseudoElement v b = (Throw (Error (error b)), b\<lparr>order := 5\<rparr>)"
    by (rule duplicate_pseudoElement)
  then show "fst (Builder_pseudoElement v b) = Throw (Error (error b))"
    by simp
  have "order (b\<lparr>order := 5\<rparr>) = 5" by simp
  with assms(2) have "b\<lparr>order := 5\<rparr> \<noteq> b" by metis
  with after show "snd (Builder_pseudoElement v b) \<noteq> b" by simp
qed

text \<open>
  C6. In every state a builder can reach, an appending call that throws leaves the
  builder as it was before the call. (For \<^verbatim>\<open>pseudoElement\<close> the assignment
  \<^verbatim>\<open>this.order = 5\<close> does come before the test, but whenever the test rejects,
  \<^verbatim>\<open>order\<close> is 5 already.)
\<close>

theorem C6_failed_append_leaves_state:
  assumes "fst (append f (Builder_after cs)) = Throw e"
  shows "snd (append f (Builder_after cs)) = Builder_after cs"
  using failed_append_unchanged [OF inv_after assms] .

theorem C6_witness:
  "fst (append (PseudoElement ''before'')
         (Builder_after [Append (PseudoElement ''after''), Append (Class ''late'')]))
     = Throw (Error ''Element, id and pseudo-element should not occur more then one time inside the selector'')
   \<and> snd (append (PseudoElement ''before'')
         (Builder_after [Append (PseudoElement ''after''), Append (Class ''late'')]))
     = Builder_after [Append (PseudoElement ''after''), Append (Class ''late'')]"
proof -
  have thrown: "fst (append (PseudoElement ''before'')
         (Builder_after [Append (PseudoElement ''after''), Append (Class ''late'')]))
     = Throw (Error ''Element, id and pseudo-element should not occur more then one time inside the selector'')"
    by (simp add: Builder_after_def method_defs Builder_constructor_def)
  from C6_failed_append_leaves_state [OF thrown] thrown show ?thesis by simp
qed

subsection \<open>combine\<close>

lemma combine_result:
  "Builder_combine left c right this
     = (Return (), this\<lparr>result := result left @ '' '' @ c @ '' '' @ result right\<rparr>)"
  by (simp add: Builder_combine_def Builder_stringify_def)

lemma facade_combine:
  "cssSelectorBuilder_combine left c right
     = Return (Builder_constructor\<lparr>result := result left @ '' '' @ c @ '' '' @ result right\<rparr>)"
  by (simp add: cssSelectorBuilder_combine_def combine_result)

text \<open>
  C4. \<^verbatim>\<open>combine(left, combinator, right)\<close> returns, whatever the state of the receiver
  and of the two arguments, and \<^verbatim>\<open>stringify()\<close> on the result is
  \<^verbatim>\<open>stringify(left) + " " + combinator + " " + stringify(right)\<close>, for the method and
  for the facade; nested either way, the texts come in the order written.
\<close>

theorem C4_combine_stringify:
  "fst (Builder_combine left c right this) = Return ()
   \<and> fst (Builder_stringify (snd (Builder_combine left c right this)))
       = fst (Builder_stringify left) @ '' '' @ c @ '' '' @ fst (Builder_stringify right)
   \<and> (\<exists>b. cssSelectorBuilder_combine left c right = Return b
        \<and> fst (Builder_stringify b)
            = fst (Builder_stringify left) @ '' '' @ c @ '' '' @ fst (Builder_stringify right))
   \<and> (\<exists>inner outer. cssSelectorBuilder_combine mid c2 right = Return inner
        \<and> cssSelectorBuilder_combine left c inner = Return outer
        \<and> fst (Builder_stringify outer)
            = fst (Builder_stringify left) @ '' '' @ c @ '' '' @ fst (Builder_stringify mid)
              @ '' '' @ c2 @ '' '' @ fst (Builder_stringify right))
   \<and> (\<exists>inner outer. cssSelectorBuilder_combine left c mid = Return inner
        \<and> cssSelectorBuilder_combine inner c2 right = Return outer
        \<and> fst (Builder_stringify outer)
            = fst (Builder_stringify left) @ '' '' @ c @ '' '' @ fst (Builder_stringify mid)
              @ '' '' @ c2 @ '' '' @ fst (Builder_stringify right))"
  by (simp add: combine_result facade_combine Builder_stringify_def)

theorem C4_witness:
  "cssSelectorBuilder_combine
     (snd (chain [Element ''div'', Id ''main''] Builder_constructor)) ''+''
     (snd (chain [Element ''table'', Id ''data''] Builder_constructor))
   = Return (Builder_constructor\<lparr>result := ''div#main + table#data''\<rparr>)"
  using C4_combine_stringify
    [of "snd (chain [Element ''div'', Id ''main''] Builder_constructor)" "''+''"
        "snd (chain [Element ''table'', Id ''data''] Builder_constructor)"
        Builder_constructor "Builder_constructor" "''~''"]
  by (simp add: facade_combine method_defs Builder_constructor_def)

lemma combine_in_store:
  "Builder_combine_in left c right this \<sigma>
     = invoke (Builder_combine (\<sigma> left) c (\<sigma> right)) this \<sigma>"
  by (simp add: Builder_combine_in_def invoke_def Builder_stringify_def combine_result)

text \<open>
  C7. \<^verbatim>\<open>combine(left, combinator, right)\<close> called on a builder that is neither
  \<open>left\<close> nor \<open>right\<close> returns and leaves both as they were, every field; what the
  receiver gets is made of their \<^verbatim>\<open>stringify()\<close> texts.
\<close>

theorem C7_combine_leaves_arguments:
  assumes "this \<noteq> left" and "this \<noteq> right"
  shows "fst (Builder_combine_in left c right this \<sigma>) = Return ()
     \<and> snd (Builder_combine_in left c right this \<sigma>) left = \<sigma> left
     \<and> snd (Builder_combine_in left c right this \<sigma>) right = \<sigma> right
     \<and> result (snd (Builder_combine_in left c right this \<sigma>) this)
         = fst (Builder_stringify (\<sigma> left)) @ '' '' @ c @ '' ''
           @ fst (Builder_stringify (\<sigma> right))"
  using assms
  by (simp add: Builder_combine_in_def invoke_def Builder_stringify_def)

theorem C7_witness:
  "(2::nat) \<noteq> 0 \<and> (2::nat) \<noteq> 1
   \<and> snd (Builder_combine_in 0 ''>'' 1 2
        ((\<lambda>r. Builder_constructor)
           (0 := snd (Builder_element ''ul'' Builder_constructor),
            1 := snd (Builder_element ''li'' Builder_constructor)))) 0
       = snd (Builder_element ''ul'' Builder_constructor)
   \<and> snd (Builder_combine_in 0 ''>'' 1 2
        ((\<lambda>r. Builder_constructor)
           (0 := snd (Builder_element ''ul'' Builder_constructor),
            1 := snd (Builder_element ''li'' Builder_constructor)))) 1
       = snd (Builder_element ''li'' Builder_constructor)
   \<and> result (snd (Builder_combine_in 0 ''>'' 1 2
        ((\<lambda>r. Builder_constructor)
           (0 := snd (Builder_element ''ul'' Builder_constructor),
            1 := snd (Builder_element ''li'' Builder_constructor)))) 2)
       = ''ul > li''"
  using C7_combine_leaves_arguments [of 2 0 1 "''>''"
      "(\<lambda>r. Builder_constructor)
           (0 := snd (Builder_element ''ul'' Builder_constructor),
            1 := snd (Builder_element ''li'' Builder_constructor))"]
  by (simp add: Builder_element_def Builder_constructor_def Builder_stringify_def)

subsection \<open>stringify\<close>

text \<open>
  C8. \<^verbatim>\<open>stringify()\<close> returns the accumulated text and leaves every field of the builder
  as it was, so a second call returns the same text; on a freshly constructed builder it
  returns the empty string.
\<close>

theorem C8_stringify_pure:
  "fst (Builder_stringify b) = result b
   \<and> snd (Builder_stringify b) = b
   \<and> fst (Builder_stringify (snd (Builder_stringify b))) = fst (Builder_stringify b)
   \<and> fst (Builder_stringify Builder_constructor) = ''''"
  by (simp add: Builder_stringify_def Builder_constructor_def)

section \<open>Rectangle\<close>

text \<open>
  C9. \<^verbatim>\<open>new Rectangle(w, h)\<close> gives an object whose \<^verbatim>\<open>width\<close> is \<open>w\<close> and whose
  \<^verbatim>\<open>height\<close> is \<open>h\<close>, and \<^verbatim>\<open>getArea()\<close> on it returns \<open>w * h\<close>, whatever the
  prototype held before the construction.
\<close>

theorem C9_Rectangle_fields_and_area:
  "width (fst (new_Rectangle w h proto)) = w
   \<and> height (fst (new_Rectangle w h proto)) = h
   \<and> call_getArea (fst (new_Rectangle w h proto)) (snd (new_Rectangle w h proto))
       = Return (w * h)"
  by (simp add: new_Rectangle_def call_getArea_def)

theorem C9_witness:
  "fst (new_Rectangle (10::int) 20 \<lparr>getArea = None\<rparr>) = \<lparr>width = 10, height = 20\<rparr>
   \<and> call_getArea (fst (new_Rectangle (10::int) 20 \<lparr>getArea = None\<rparr>))
        (snd (new_Rectangle (10::int) 20 \<lparr>getArea = None\<rparr>)) = Return 200"
  using C9_Rectangle_fields_and_area [of "10::int" 20 "\<lparr>getArea = None\<rparr>"]
  by (simp add: new_Rectangle_def)

section \<open>getJSON and fromJSON\<close>

text \<open>
  An object as the loop of \<^verbatim>\<open>fromJSON\<close> has it while no code of the caller has run:
  extensible, and every own property is a writable data property.
\<close>

lemma assign_creates:
  assumes "prototype r = Some p" and "extensible r"
    and "\<And>k' q. own r k' = Some q \<Longrightarrow> \<exists>u. q = OwnData u True"
    and "creates_own h w p k"
  shows "assign h k v w r = (Return (r\<lparr>own := (own r)(k \<mapsto> OwnData v True)\<rparr>), w)"
proof (cases "own r k")
  case None
  with assms(1,2,4) show ?thesis
    by (auto simp: assign_def define_own_def creates_own_def
        split: option.splits found.splits)
next
  case (Some q)
  with assms(3) obtain u where "own r k = Some (OwnData u True)" by blast
  then show ?thesis by (simp add: assign_def)
qed

lemma copy_properties:
  assumes "prototype r = Some p" and "extensible r"
    and "\<And>k' q. own r k' = Some q \<Longrightarrow> \<exists>u. q = OwnData u True"
    and "\<forall>k \<in> set ks. creates_own h w p k"
  shows "forEach (\<lambda>k. assign h k (f k)) ks w r
     = (Return (r\<lparr>own := (\<lambda>k. if k \<in> set ks then Some (OwnData (f k) True) else own r k)\<rparr>), w)"
  using assms
proof (induction ks arbitrary: r)
  case Nil
  then show ?case by simp
next
  case (Cons k ks)
  let ?r1 = "r\<lparr>own := (own r)(k \<mapsto> OwnData (f k) True)\<rparr>"
  from Cons.prems have step: "assign h k (f k) w r = (Return ?r1, w)"
    by (intro assign_creates) auto
  have "forEach (\<lambda>k. assign h k (f k)) ks w ?r1
     = (Return (?r1\<lparr>own := (\<lambda>k'. if k' \<in> set ks then Some (OwnData (f k') True)
                                  else own ?r1 k')\<rparr>), w)"
  proof (rule Cons.IH)
    show "prototype ?r1 = Some p" using Cons.prems(1) by simp
    show "extensible ?r1" using Cons.prems(2) by simp
    show "\<exists>u. q = OwnData u True" if "own ?r1 k' = Some q" for k' q
      using that Cons.prems(3) [of k' q] by (cases "k' = k") auto
    show "\<forall>k \<in> set ks. creates_own h w p k" using Cons.prems(4) by simp
  qed
  with step show ?case by (simp add: fun_eq_iff)
qed

lemma property_map_of:
  "(if k \<in> fst ` set kvs then Some (OwnData (property kvs k) True) else None)
     = map_option (\<lambda>v. OwnData v True) (map_of kvs k)"
proof (cases "map_of kvs k")
  case None
  then have "k \<notin> fst ` set kvs" by (simp add: map_of_eq_None_iff)
  with None show ?thesis by simp
next
  case (Some v)
  then have "k \<in> fst ` set kvs" by (metis map_of_eq_None_iff option.distinct(1))
  with Some show ?thesis by (simp add: property_def)
qed

lemma fromJSON_object:
  assumes "JSON_parse (to_text y) = Return (JObj kvs)"
    and "\<forall>k \<in> set (map fst kvs). creates_own h w p k"
  shows "fromJSON JSON_parse h (ProtoObject p) y w
     = (Return \<lparr>prototype = Some p, extensible = True,
                own = (\<lambda>k. map_option (\<lambda>v. OwnData v True) (map_of kvs k))\<rparr>, w)"
proof -
  let ?r = "\<lparr>prototype = Some p, extensible = True, own = Map.empty\<rparr> :: 'a object"
  have copied: "(\<lambda>k. if k \<in> set (map fst kvs) then Some (OwnData (property kvs k) True)
                    else own ?r k)
      = (\<lambda>k. map_option (\<lambda>v. OwnData v True) (map_of kvs k))"
  proof
    fix k
    show "(if k \<in> set (map fst kvs) then Some (OwnData (property kvs k) True) else own ?r k)
        = map_option (\<lambda>v. OwnData v True) (map_of kvs k)"
      using property_map_of [of k kvs] by (auto split: if_splits)
  qed
  have "forEach (\<lambda>k. assign h k (property kvs k)) (map fst kvs) w ?r
      = (Return (?r\<lparr>own := (\<lambda>k. if k \<in> set (map fst kvs)
                                 then Some (OwnData (property kvs k) True) else own ?r k)\<rparr>), w)"
    using assms(2) by (intro copy_properties) auto
  also have "\<dots> = (Return \<lparr>prototype = Some p, extensible = True,
                own = (\<lambda>k. map_option (\<lambda>v. OwnData v True) (map_of kvs k))\<rparr>, w)"
    by (simp only: copied) simp
  finally show ?thesis
    using assms(1) by (simp add: fromJSON_def Object_create_def)
qed

text \<open>
  Where the walk up the chain meets an exotic object, or an accessor with a setter,
  the assignment is that object's or that setter's and \<^verbatim>\<open>fromJSON\<close> creates nothing
  itself.
\<close>

lemma assign_exotic:
  assumes "own r k = None" and "prototype r = Some p"
    and "lookup h w p k = Some (ExoticObject q)"
  shows "assign h k v w r = exotic_set h w q k v r"
  using assms by (simp add: assign_def)

lemma assign_setter:
  assumes "own r k = None" and "prototype r = Some p"
    and "lookup h w p k = Some (AccessorProperty (Some f))"
  shows "assign h k v w r = call_setter h w f v r"
  using assms by (simp add: assign_def)

text \<open>
  Three prototypes outside the conditions of the amended claim, on which the result is
  what the caller's code makes of it: a \<^verbatim>\<open>Proxy\<close> whose \<^verbatim>\<open>set\<close> trap accepts the
  assignment and defines nothing; a setter that throws; and the setter of
  \<^verbatim>\<open>__proto__\<close>, which replaces the prototype of the object being built.
\<close>

lemma proxy_prototype_example:
  \<open>fromJSON ((\<lambda>s. Throw SyntaxError)
               (''{"radius":10}'' := Return (JObj [(''radius'', JNum (10::int))])))
      \<lparr>lookup = (\<lambda>w p k. Some (ExoticObject p)),
       call_setter = (\<lambda>w f v r. (Return r, w)),
       exotic_set = (\<lambda>w p k v r. (Return r, w))\<rparr>
      (ProtoObject 0) (Some ''{"radius":10}'') ()
     = (Return \<lparr>prototype = Some 0, extensible = True, own = Map.empty\<rparr>, ())\<close>
  by (simp add: fromJSON_def Object_create_def assign_def property_def)

lemma throwing_setter_example:
  \<open>fromJSON ((\<lambda>s. Throw SyntaxError)
               (''{"radius":10}'' := Return (JObj [(''radius'', JNum (10::int))])))
      \<lparr>lookup = (\<lambda>w p. Map.empty(''radius'' \<mapsto> AccessorProperty (Some 1))),
       call_setter = (\<lambda>w f v r. (Throw (Error ''radius is fixed''), w)),
       exotic_set = (\<lambda>w p k v r. (Return r, w))\<rparr>
      (ProtoObject 0) (Some ''{"radius":10}'') ()
     = (Throw (Error ''radius is fixed''), ())\<close>
  by (simp add: fromJSON_def Object_create_def assign_def property_def)

lemma proto_setter_example:
  \<open>fromJSON ((\<lambda>s. Throw SyntaxError)
               (''{"__proto__":null}'' := Return (JObj [(''__proto__'', JNull :: int jsval)])))
      \<lparr>lookup = (\<lambda>w p. Map.empty(''__proto__'' \<mapsto> AccessorProperty (Some 1))),
       call_setter = (\<lambda>w f v r. (Return (r\<lparr>prototype := None\<rparr>), w)),
       exotic_set = (\<lambda>w p k v r. (Return r, w))\<rparr>
      (ProtoObject 0) (Some ''{"__proto__":null}'') ()
     = (Return \<lparr>prototype = None, extensible = True, own = Map.empty\<rparr>, ())\<close>
  by (simp add: fromJSON_def Object_create_def assign_def property_def)

text \<open>
  C10, as stated, fails: with a prototype that has a getter \<^verbatim>\<open>radius\<close> and no setter
  (\<^verbatim>\<open>class Circle { get radius() { ... } }\<close>), and \<^verbatim>\<open>JSON.stringify\<close> and
  \<^verbatim>\<open>JSON.parse\<close> as they are on \<^verbatim>\<open>{radius: 10}\<close> and its text, the object
  \<^verbatim>\<open>fromJSON(proto, getJSON(obj))\<close> returns has no own property: the assignment is
  dropped.
\<close>

theorem C10_counterexample:
  \<open>(Map.empty(JObj [(''radius'', JNum (10::int))] \<mapsto> ''{"radius":10}''))
      (JObj [(''radius'', JNum 10)])
     = Some ''{"radius":10}''
   \<and> ((\<lambda>s. Throw SyntaxError)(''{"radius":10}'' := Return (JObj [(''radius'', JNum (10::int))])))
        ''{"radius":10}''
     = Return (JObj [(''radius'', JNum 10)])
   \<and> fromJSON ((\<lambda>s. Throw SyntaxError)
                  (''{"radius":10}'' := Return (JObj [(''radius'', JNum (10::int))])))
        \<lparr>lookup = (\<lambda>w p. Map.empty(''radius'' \<mapsto> AccessorProperty None)),
         call_setter = (\<lambda>w f v r. (Return r, w)),
         exotic_set = (\<lambda>w p k v r. (Return r, w))\<rparr>
        (ProtoObject 0)
        (getJSON (Map.empty(JObj [(''radius'', JNum (10::int))] \<mapsto> ''{"radius":10}''))
           (JObj [(''radius'', JNum 10)]))
        ()
     = (Return \<lparr>prototype = Some 0, extensible = True, own = Map.empty\<rparr>, ())
   \<and> fromJSON ((\<lambda>s. Throw SyntaxError)
                  (''{"radius":10}'' := Return (JObj [(''radius'', JNum (10::int))])))
        \<lparr>lookup = (\<lambda>w p. Map.empty(''radius'' \<mapsto> AccessorProperty None)),
         call_setter = (\<lambda>w f v r. (Return r, w)),
         exotic_set = (\<lambda>w p k v r. (Return r, w))\<rparr>
        (ProtoObject 0)
        (getJSON (Map.empty(JObj [(''radius'', JNum (10::int))] \<mapsto> ''{"radius":10}''))
           (JObj [(''radius'', JNum 10)]))
        ()
     \<noteq> (Return \<lparr>prototype = Some 0, extensible = True,
                 own = Map.empty(''radius'' \<mapsto> OwnData (JNum 10) True)\<rparr>, ())\<close>
proof -
  let ?kvs = \<open>[(''radius'', JNum (10::int))]\<close>
  let ?stringify = \<open>Map.empty(JObj ?kvs \<mapsto> ''{"radius":10}'')\<close>
  let ?parse = \<open>(\<lambda>s. Throw SyntaxError)(''{"radius":10}'' := Return (JObj ?kvs))\<close>
  let ?h = \<open>\<lparr>lookup = (\<lambda>w p. Map.empty(''radius'' \<mapsto> AccessorProperty None)),
         call_setter = (\<lambda>w f v r. (Return r, w)),
         exotic_set = (\<lambda>w p k v r. (Return r, w))\<rparr> :: (int, unit) host\<close>
  have written: \<open>?stringify (JObj ?kvs) = Some ''{"radius":10}''\<close>
    by simp
  have parsed: \<open>?parse ''{"radius":10}'' = Return (JObj ?kvs)\<close>
    by simp
  have built: \<open>fromJSON ?parse ?h (ProtoObject 0) (getJSON ?stringify (JObj ?kvs)) ()
      = (Return \<lparr>prototype = Some 0, extensible = True, own = Map.empty\<rparr>, ())\<close>
    by (simp add: fromJSON_def getJSON_def Object_create_def assign_def property_def)
  have \<open>(Map.empty :: string \<Rightarrow> int own_property option) ''radius''
      \<noteq> (Map.empty(''radius'' \<mapsto> OwnData (JNum 10) True)) ''radius''\<close>
    by simp
  then have \<open>(Map.empty :: string \<Rightarrow> int own_property option)
      \<noteq> Map.empty(''radius'' \<mapsto> OwnData (JNum 10) True)\<close>
    by metis
  then have differ: \<open>fromJSON ?parse ?h (ProtoObject 0) (getJSON ?stringify (JObj ?kvs)) ()
      \<noteq> (Return \<lparr>prototype = Some 0, extensible = True,
                 own = Map.empty(''radius'' \<mapsto> OwnData (JNum 10) True)\<rparr>, ())\<close>
    by (simp only: built) simp
  show ?thesis
    by (intro conjI written parsed built differ)
qed

text \<open>
  C10, amended. Let \<open>obj\<close> be a plain object that \<^verbatim>\<open>JSON.stringify\<close> turns into a text
  which \<^verbatim>\<open>JSON.parse\<close> turns back into \<open>obj\<close>, and let \<open>proto\<close> be an object such
  that for every key of \<open>obj\<close> the walk up the chain from \<open>proto\<close> finds nothing or a
  writable data property, and meets no accessor, no read-only data property and no
  exotic object on the way. Then \<^verbatim>\<open>fromJSON(proto, getJSON(obj))\<close> returns, without
  a change to any other object, an object whose prototype is \<open>proto\<close> and whose own
  properties are those of \<open>obj\<close>, with their values.
\<close>

theorem C10_fromJSON_getJSON:
  assumes "JSON_stringify (JObj kvs) = Some y"
    and "JSON_parse y = Return (JObj kvs)"
    and "\<forall>k \<in> set (map fst kvs). creates_own h w proto k"
  shows "fromJSON JSON_parse h (ProtoObject proto) (getJSON JSON_stringify (JObj kvs)) w
     = (Return \<lparr>prototype = Some proto, extensible = True,
                own = (\<lambda>k. map_option (\<lambda>v. OwnData v True) (map_of kvs k))\<rparr>, w)"
proof -
  from assms(1) have passed: "getJSON JSON_stringify (JObj kvs) = Some y"
    by (simp add: getJSON_def)
  with assms(2) have "JSON_parse (to_text (getJSON JSON_stringify (JObj kvs))) = Return (JObj kvs)"
    by simp
  from this assms(3) show ?thesis
    by (rule fromJSON_object)
qed

theorem C10_witness:
  \<open>fromJSON ((\<lambda>s. Throw SyntaxError)
               (''{"radius":10}'' := Return (JObj [(''radius'', JNum (10::int))])))
      \<lparr>lookup = (\<lambda>w p. Map.empty(''getArea'' \<mapsto> DataProperty True)),
       call_setter = (\<lambda>w f v r. (Return r, w)),
       exotic_set = (\<lambda>w p k v r. (Return r, w))\<rparr>
      (ProtoObject 0)
      (getJSON (Map.empty(JObj [(''radius'', JNum (10::int))] \<mapsto> ''{"radius":10}''))
         (JObj [(''radius'', JNum 10)]))
      ()
     = (Return \<lparr>prototype = Some 0, extensible = True,
                own = (\<lambda>k. map_option (\<lambda>v. OwnData v True)
                             (map_of [(''radius'', JNum 10)] k))\<rparr>, ())\<close>
proof -
  let ?kvs = \<open>[(''radius'', JNum (10::int))]\<close>
  let ?stringify = \<open>Map.empty(JObj ?kvs \<mapsto> ''{"radius":10}'')\<close>
  let ?parse = \<open>(\<lambda>s. Throw SyntaxError)(''{"radius":10}'' := Return (JObj ?kvs))\<close>
  let ?h = \<open>\<lparr>lookup = (\<lambda>w p. Map.empty(''getArea'' \<mapsto> DataProperty True)),
       call_setter = (\<lambda>w f v r. (Return r, w)),
       exotic_set = (\<lambda>w p k v r. (Return r, w))\<rparr> :: (int, unit) host\<close>
  have a: \<open>?stringify (JObj ?kvs) = Some ''{"radius":10}''\<close>
    by simp
  have b: \<open>?parse ''{"radius":10}'' = Return (JObj ?kvs)\<close>
    by simp
  have c: \<open>\<forall>k \<in> set (map fst ?kvs). creates_own ?h () 0 k\<close>
    by (simp add: creates_own_def)
  from C10_fromJSON_getJSON [of ?stringify ?kvs \<open>''{"radius":10}''\<close> ?parse ?h \<open>()\<close> 0, OF a b c]
  show ?thesis .
qed

end
